theory Spec2Isabelle
  imports Complex_Main
begin

section \<open>JavaScript values\<close>

text \<open>
  The wrapper of \<^verbatim>\<open>src/modules/Expectation.js\<close> holds an arbitrary JavaScript value.
  Objects carry the address they live at, because \<^verbatim>\<open>===\<close> on objects compares
  addresses and not contents. A number is an IEEE double: its comparisons are exact on
  the value it denotes, so a finite number is the rational it denotes (\<open>+0\<close> and \<open>-0\<close>
  are the same rational, as they are for \<^verbatim>\<open>===\<close> and \<^verbatim>\<open><\<close>).
\<close>

type_synonym ref = nat

datatype jsnum = NaN | PosInf | NegInf | Finite rat

datatype jsval =
    Undefined
  | Null
  | Bool bool
  | Num jsnum
  | Str string
  | Arr ref "jsval list"
  | Obj ref "(string \<times> jsval) list"
  | Fn ref
  | Spy ref "(ref \<times> jsval list) list"
  | RegExp ref string string

text \<open>
  \<open>Fn r\<close> is a function object. \<open>Spy r calls\<close> is a spy: a function object that has
  recorded \<open>calls\<close>, one entry per call, the entry being the array \<^verbatim>\<open>call.arguments\<close>
  (its address and its elements). \<open>RegExp r source flags\<close> is a regular expression.
\<close>

subsection \<open>Operators of the language\<close>

fun typeof :: "jsval \<Rightarrow> string" where
  "typeof Undefined = ''undefined''"
| "typeof Null = ''object''"
| "typeof (Bool _) = ''boolean''"
| "typeof (Num _) = ''number''"
| "typeof (Str _) = ''string''"
| "typeof (Arr _ _) = ''object''"
| "typeof (Obj _ _) = ''object''"
| "typeof (Fn _) = ''function''"
| "typeof (Spy _ _) = ''function''"
| "typeof (RegExp _ _ _) = ''object''"

text \<open>Truthiness: what \<^verbatim>\<open>if (x)\<close>, \<^verbatim>\<open>!x\<close> and \<^verbatim>\<open>x || y\<close> test.\<close>

fun truthy :: "jsval \<Rightarrow> bool" where
  "truthy Undefined = False"
| "truthy Null = False"
| "truthy (Bool b) = b"
| "truthy (Num NaN) = False"
| "truthy (Num (Finite q)) = (q \<noteq> 0)"
| "truthy (Num _) = True"
| "truthy (Str s) = (s \<noteq> [])"
| "truthy _ = True"

text \<open>\<^verbatim>\<open>a || b\<close>\<close>

definition js_or :: "jsval \<Rightarrow> jsval \<Rightarrow> jsval" where
  "js_or a b = (if truthy a then a else b)"

text \<open>\<^verbatim>\<open>a === b\<close> on numbers: \<open>NaN\<close> is not identical to anything, itself included.\<close>

fun num_eq :: "jsnum \<Rightarrow> jsnum \<Rightarrow> bool" where
  "num_eq NaN _ = False"
| "num_eq _ NaN = False"
| "num_eq PosInf PosInf = True"
| "num_eq NegInf NegInf = True"
| "num_eq (Finite a) (Finite b) = (a = b)"
| "num_eq _ _ = False"

text \<open>\<^verbatim>\<open>a < b\<close> and \<^verbatim>\<open>a <= b\<close> on numbers: false as soon as one side is \<open>NaN\<close>.\<close>

fun num_lt :: "jsnum \<Rightarrow> jsnum \<Rightarrow> bool" where
  "num_lt NaN _ = False"
| "num_lt _ NaN = False"
| "num_lt PosInf _ = False"
| "num_lt _ NegInf = False"
| "num_lt NegInf _ = True"
| "num_lt _ PosInf = True"
| "num_lt (Finite a) (Finite b) = (a < b)"

fun num_le :: "jsnum \<Rightarrow> jsnum \<Rightarrow> bool" where
  "num_le NaN _ = False"
| "num_le _ NaN = False"
| "num_le a b = (\<not> num_lt b a)"

text \<open>
  \<^verbatim>\<open>a === b\<close>: no coercion, so values of different types are never identical;
  objects are identical when they are the same object.
\<close>

fun strict_eq :: "jsval \<Rightarrow> jsval \<Rightarrow> bool" where
  "strict_eq Undefined b = (b = Undefined)"
| "strict_eq Null b = (b = Null)"
| "strict_eq (Bool x) b = (b = Bool x)"
| "strict_eq (Num x) b = (case b of Num y \<Rightarrow> num_eq x y | _ \<Rightarrow> False)"
| "strict_eq (Str x) b = (b = Str x)"
| "strict_eq (Arr r _) b = (case b of Arr r' _ \<Rightarrow> r = r' | _ \<Rightarrow> False)"
| "strict_eq (Obj r _) b = (case b of Obj r' _ \<Rightarrow> r = r' | _ \<Rightarrow> False)"
| "strict_eq (Fn r) b = (case b of Fn r' \<Rightarrow> r = r' | _ \<Rightarrow> False)"
| "strict_eq (Spy r _) b = (case b of Spy r' _ \<Rightarrow> r = r' | _ \<Rightarrow> False)"
| "strict_eq (RegExp r _ _) b = (case b of RegExp r' _ _ \<Rightarrow> r = r' | _ \<Rightarrow> False)"

text \<open>\<^verbatim>\<open>x == null\<close> holds of \<^verbatim>\<open>null\<close> and \<^verbatim>\<open>undefined\<close> only.\<close>

fun eq_null :: "jsval \<Rightarrow> bool" where
  "eq_null Undefined = True"
| "eq_null Null = True"
| "eq_null _ = False"

text \<open>
  \<^verbatim>\<open>xs.concat(a1, ..., an)\<close>: a new array, the elements of \<open>xs\<close> followed by each
  argument, where an argument that is an array contributes its elements and any other
  argument contributes itself.
\<close>

fun concat_item :: "jsval \<Rightarrow> jsval list" where
  "concat_item (Arr _ ys) = ys"
| "concat_item v = [v]"

definition Array_concat :: "jsval list \<Rightarrow> jsval list \<Rightarrow> jsval list" where
  "Array_concat xs items = xs @ concat (map concat_item items)"

section \<open>Collaborators\<close>

text \<open>
  \<^verbatim>\<open>Expectation.js\<close> imports its helpers from \<^verbatim>\<open>./TestUtils\<close>, \<^verbatim>\<open>./SpyUtils\<close>,
  \<^verbatim>\<open>./assert\<close> and the packages \<^verbatim>\<open>is-equal\<close> and \<^verbatim>\<open>is-regex\<close>. None of them is
  under \<^verbatim>\<open>src/\<close>. The helpers that only look at the kind of a value are defined here
  from the specification; the ones that run code of the caller or of the engine (a
  function under test, a comparator, a regular expression, \<^verbatim>\<open>instanceof\<close>, the rendering
  of a message) are fields of the record \<open>collab\<close>, and every theorem holds for every
  such record.
\<close>

text \<open>Modelled from the spec: \<^verbatim>\<open>isFunction\<close> of TestUtils, the capability check for
  a callable subject (section 6, "Type helpers").\<close>

definition isFunction :: "jsval \<Rightarrow> bool" where
  "isFunction v = (typeof v = ''function'')"

text \<open>Modelled from the spec: \<^verbatim>\<open>isArray\<close> of TestUtils (section 6, "Type helpers").\<close>

fun isArray :: "jsval \<Rightarrow> bool" where
  "isArray (Arr _ _) = True"
| "isArray _ = False"

text \<open>Modelled from the spec: \<^verbatim>\<open>isObject\<close> of TestUtils, true of a plain object
  (section 4.6: "an array, a plain object, or a string").\<close>

fun isObject :: "jsval \<Rightarrow> bool" where
  "isObject (Obj _ _) = True"
| "isObject _ = False"

text \<open>Modelled from the spec: \<^verbatim>\<open>isSpy\<close> of SpyUtils, true of a recognized spy
  (section 6, "Spy recognition").\<close>

fun isSpy :: "jsval \<Rightarrow> bool" where
  "isSpy (Spy _ _) = True"
| "isSpy _ = False"

text \<open>Modelled from the spec: \<^verbatim>\<open>isRegExp\<close> of the package is-regex (section 4.4:
  "pattern must be a regular expression").\<close>

fun isRegExp :: "jsval \<Rightarrow> bool" where
  "isRegExp (RegExp _ _ _) = True"
| "isRegExp _ = False"

text \<open>Modelled from the spec: \<^verbatim>\<open>isEqual\<close> of the package is-equal, the deep-equality
  comparator (section 6): primitives by value, arrays element by element and of the
  same length, plain objects by key set and value whatever the order of the keys,
  regular expressions by pattern and flags. Functions are compared by identity.\<close>

fun isEqual :: "jsval \<Rightarrow> jsval \<Rightarrow> bool"
  and isEqual_list :: "jsval list \<Rightarrow> jsval list \<Rightarrow> bool"
  and isEqual_entries :: "(string \<times> jsval) list \<Rightarrow> (string \<times> jsval) list \<Rightarrow> bool" where
  "isEqual (Arr _ xs) b = (case b of Arr _ ys \<Rightarrow> isEqual_list xs ys | _ \<Rightarrow> False)"
| "isEqual (Obj _ ps) b =
     (case b of
        Obj _ qs \<Rightarrow> isEqual_entries ps qs \<and> set (map fst qs) \<subseteq> set (map fst ps)
      | _ \<Rightarrow> False)"
| "isEqual (RegExp _ src fl) b =
     (case b of RegExp _ src' fl' \<Rightarrow> src = src' \<and> fl = fl' | _ \<Rightarrow> False)"
| "isEqual a b = strict_eq a b"
| "isEqual_list [] ys = (ys = [])"
| "isEqual_list (x # xs) ys =
     (case ys of [] \<Rightarrow> False | y # ys' \<Rightarrow> isEqual x y \<and> isEqual_list xs ys')"
| "isEqual_entries [] qs = True"
| "isEqual_entries ((k, v) # ps) qs =
     ((case map_of qs k of None \<Rightarrow> False | Some v' \<Rightarrow> isEqual v v')
      \<and> isEqual_entries ps qs)"

text \<open>
  The collaborators that run code this development does not look into:
  \<^item> \<open>render t vs\<close>: the message the reporter renders from the template \<open>t\<close> and the
    values \<open>vs\<close>;
  \<^item> \<open>functionThrows f ctx as v\<close>: \<^verbatim>\<open>functionThrows\<close> of TestUtils, which calls \<open>f\<close> on
    the binding \<open>ctx\<close> and the arguments \<open>as\<close> and tells whether it threw what \<open>v\<close>
    describes;
  \<^item> \<open>isA x t\<close>: \<^verbatim>\<open>isA\<close> of TestUtils (\<^verbatim>\<open>instanceof\<close> or a type name);
  \<^item> \<open>regexp_test p x\<close>: \<^verbatim>\<open>p.test(x)\<close>;
  \<^item> \<open>call_compare f a b\<close>: the call \<open>f(a, b)\<close> of a comparator \<open>f\<close>, a function of the
    caller: \<open>Inr r\<close> when it returns, \<open>r\<close> telling whether the helper takes the result
    as a match, and \<open>Inl x\<close> when it throws the value \<open>x\<close>;
  \<^item> \<open>to_string v\<close>: the string form of \<open>v\<close>.
  None of them changes a wrapper, and all but the comparator are taken to return.
\<close>

record collab =
  render :: "jsval \<Rightarrow> jsval list \<Rightarrow> string"
  functionThrows :: "jsval \<Rightarrow> jsval \<Rightarrow> jsval list option \<Rightarrow> jsval \<Rightarrow> bool"
  isA :: "jsval \<Rightarrow> jsval \<Rightarrow> bool"
  regexp_test :: "jsval \<Rightarrow> jsval \<Rightarrow> bool"
  call_compare :: "jsval \<Rightarrow> jsval \<Rightarrow> jsval \<Rightarrow> jsval + bool"
  to_string :: "jsval \<Rightarrow> string"

subsection \<open>The reporter\<close>

text \<open>
  What a method throws. \<open>Thrown e\<close> is an \<^verbatim>\<open>Error\<close> object with its message and the
  three properties a test runner reads for a diff, each absent (\<open>None\<close>) until it is
  assigned. \<open>TypeError\<close> is the engine's error for a property read on \<^verbatim>\<open>undefined\<close> or
  a call of something that is not a function. \<open>CallerThrew x\<close> is the value \<open>x\<close> thrown
  by a comparator of the caller, which no method catches.
\<close>

record js_error =
  message :: string
  showDiff :: "bool option"
  e_actual :: "jsval option"
  e_expected :: "jsval option"

datatype exn = Thrown js_error | TypeError | CallerThrew jsval

text \<open>Modelled from the spec: the failure object the reporter of \<^verbatim>\<open>./assert\<close> raises
  (sections 3 and 6): it carries the message rendered from the template and the
  values, and nothing for a diff.\<close>

definition failure :: "collab \<Rightarrow> jsval \<Rightarrow> jsval list \<Rightarrow> exn" where
  "failure c template values =
     Thrown \<lparr>message = render c template values, showDiff = None,
             e_actual = None, e_expected = None\<rparr>"

text \<open>Modelled from the spec: \<^verbatim>\<open>assert\<close> of \<^verbatim>\<open>./assert\<close>, the reporter (sections 2
  and 6): it returns normally on a true condition and raises the failure otherwise.\<close>

definition assert :: "collab \<Rightarrow> jsval \<Rightarrow> jsval \<Rightarrow> jsval list \<Rightarrow> exn + unit" where
  "assert c condition template values =
     (if truthy condition then Inr () else Inl (failure c template values))"

text \<open>Statements in sequence: the rest runs only if the first returned normally.\<close>

definition andThen :: "exn + unit \<Rightarrow> exn + 'a \<Rightarrow> exn + 'a" where
  "andThen first rest = (case first of Inl e \<Rightarrow> Inl e | Inr _ \<Rightarrow> rest)"

subsection \<open>Containment helpers\<close>

text \<open>
  The containment helpers call the comparator they are given, and the call may throw.
  A comparator is a function to \<open>exn + bool\<close>: \<open>returning f\<close> is one that always
  returns, as \<^verbatim>\<open>isEqual\<close> does; \<open>apply_compare c f\<close> is the call of a value \<open>f\<close> the
  caller passed, a \<^verbatim>\<open>TypeError\<close> when \<open>f\<close> is not a function.
\<close>

type_synonym comparator = "jsval \<Rightarrow> jsval \<Rightarrow> exn + bool"

definition returning :: "(jsval \<Rightarrow> jsval \<Rightarrow> bool) \<Rightarrow> comparator" where
  "returning f a b = Inr (f a b)"

definition apply_compare :: "collab \<Rightarrow> jsval \<Rightarrow> comparator" where
  "apply_compare c f a b =
     (if isFunction f
      then (case call_compare c f a b of Inl x \<Rightarrow> Inl (CallerThrew x) | Inr r \<Rightarrow> Inr r)
      else Inl TypeError)"

text \<open>
  \<^verbatim>\<open>xs.some(f)\<close> and \<^verbatim>\<open>xs.every(f)\<close> for a callback that may throw: the elements are
  tried in order, the answer is out at the first element that decides it, and an
  exception of the callback ends the loop.
\<close>

fun some_item :: "('a \<Rightarrow> exn + bool) \<Rightarrow> 'a list \<Rightarrow> exn + bool" where
  "some_item f [] = Inr False"
| "some_item f (x # xs) =
     (case f x of Inl e \<Rightarrow> Inl e | Inr found \<Rightarrow> if found then Inr True else some_item f xs)"

fun every_item :: "('a \<Rightarrow> exn + bool) \<Rightarrow> 'a list \<Rightarrow> exn + bool" where
  "every_item f [] = Inr True"
| "every_item f (x # xs) =
     (case f x of Inl e \<Rightarrow> Inl e | Inr ok \<Rightarrow> if ok then every_item f xs else Inr False)"

text \<open>Modelled from the spec: \<^verbatim>\<open>arrayContains\<close> of TestUtils (section 4.6, "Array
  subject"): the value equals an element under the comparator, or the value is itself
  an array and each of its elements equals an element of the subject.\<close>

fun arrayContains :: "jsval \<Rightarrow> jsval \<Rightarrow> comparator \<Rightarrow> exn + bool" where
  "arrayContains (Arr _ xs) v compareValues =
     (case some_item (\<lambda>item. compareValues item v) xs of
        Inl e \<Rightarrow> Inl e
      | Inr found \<Rightarrow>
          if found then Inr True
          else (case v of
                  Arr _ vs \<Rightarrow>
                    every_item (\<lambda>w. some_item (\<lambda>item. compareValues item w) xs) vs
                | _ \<Rightarrow> Inr False))"
| "arrayContains _ v compareValues = Inr False"

text \<open>Modelled from the spec: \<^verbatim>\<open>objectContains\<close> of TestUtils (section 4.6, "Object
  subject"): the value is an object and each of its keys is a key of the subject with
  an equal value under the comparator; a value that is not an object is never
  contained.\<close>

fun objectContains :: "jsval \<Rightarrow> jsval \<Rightarrow> comparator \<Rightarrow> exn + bool" where
  "objectContains (Obj _ ps) v compareValues =
     (case v of
        Obj _ qs \<Rightarrow>
          every_item (\<lambda>(k, w). case map_of ps k of None \<Rightarrow> Inr False
                               | Some x \<Rightarrow> compareValues x w) qs
      | _ \<Rightarrow> Inr False)"
| "objectContains _ v compareValues = Inr False"

fun string_includes :: "string \<Rightarrow> string \<Rightarrow> bool" where
  "string_includes [] t = (t = [])"
| "string_includes (x # xs) t = (take (length t) (x # xs) = t \<or> string_includes xs t)"

text \<open>Modelled from the spec: \<^verbatim>\<open>stringContains\<close> of TestUtils (section 4.6, "String
  subject"): the string form of the value is a substring of the subject.\<close>

fun stringContains :: "collab \<Rightarrow> jsval \<Rightarrow> jsval \<Rightarrow> bool" where
  "stringContains c (Str s) v = string_includes s (to_string c v)"
| "stringContains c _ v = False"

section \<open>The wrapper\<close>

text \<open>
  Wrappers are objects: a method receives the address \<open>this\<close> of its wrapper and the
  heap, and gives back what it returns (or throws) and the heap it leaves. \<open>fresh\<close> is
  the next address the engine allocates at. The array held in \<^verbatim>\<open>this.args\<close> is private
  to the wrapper and is kept as the list of its elements; \<open>None\<close> is the property
  absent, as it is for a subject that is not a function.
\<close>

record expectation =
  actual :: jsval
  "context" :: jsval
  args :: "jsval list option"

record heap =
  objs :: "ref \<Rightarrow> expectation"
  fresh :: ref

type_synonym outcome = "(exn + ref) \<times> heap"

text \<open>\<^verbatim>\<open>new Expectation(actual)\<close>\<close>

definition Expectation :: "jsval \<Rightarrow> heap \<Rightarrow> ref \<times> heap" where
  "Expectation a s =
     (let this = fresh s;
          e = (if isFunction a
               then \<lparr>actual = a, context = Null, args = Some []\<rparr>
               else \<lparr>actual = a, context = Undefined, args = None\<rparr>)
      in (this, s\<lparr>objs := (objs s)(this := e), fresh := Suc this\<rparr>))"

definition toExist :: "collab \<Rightarrow> jsval \<Rightarrow> ref \<Rightarrow> heap \<Rightarrow> outcome" where
  "toExist c msg this s =
     (let a = actual (objs s this) in
      (andThen (assert c a (js_or msg (Str ''Expected %s to exist'')) [a])
         (Inr this), s))"

definition toNotExist :: "collab \<Rightarrow> jsval \<Rightarrow> ref \<Rightarrow> heap \<Rightarrow> outcome" where
  "toNotExist c msg this s =
     (let a = actual (objs s this) in
      (andThen (assert c (Bool (\<not> truthy a)) (js_or msg (Str ''Expected %s to not exist'')) [a])
         (Inr this), s))"

definition toBe :: "collab \<Rightarrow> jsval \<Rightarrow> jsval \<Rightarrow> ref \<Rightarrow> heap \<Rightarrow> outcome" where
  "toBe c v msg this s =
     (let a = actual (objs s this) in
      (andThen (assert c (Bool (strict_eq a v)) (js_or msg (Str ''Expected %s to be %s'')) [a, v])
         (Inr this), s))"

definition toNotBe :: "collab \<Rightarrow> jsval \<Rightarrow> jsval \<Rightarrow> ref \<Rightarrow> heap \<Rightarrow> outcome" where
  "toNotBe c v msg this s =
     (let a = actual (objs s this) in
      (andThen (assert c (Bool (\<not> strict_eq a v)) (js_or msg (Str ''Expected %s to not be %s'')) [a, v])
         (Inr this), s))"

text \<open>The \<^verbatim>\<open>catch\<close> block of \<^verbatim>\<open>toEqual\<close>: three assignments to the caught error, which
  is then thrown again. Only the reporter's failure is ever caught there.\<close>

fun with_diff :: "jsval \<Rightarrow> jsval \<Rightarrow> exn \<Rightarrow> exn" where
  "with_diff a v (Thrown e) =
     Thrown (e\<lparr>showDiff := Some True, e_actual := Some a, e_expected := Some v\<rparr>)"
| "with_diff a v TypeError = TypeError"
| "with_diff a v (CallerThrew x) = CallerThrew x"

definition toEqual :: "collab \<Rightarrow> jsval \<Rightarrow> jsval \<Rightarrow> ref \<Rightarrow> heap \<Rightarrow> outcome" where
  "toEqual c v msg this s =
     (let a = actual (objs s this) in
      (case assert c (Bool (isEqual a v)) (js_or msg (Str ''Expected %s to equal %s'')) [a, v] of
         Inl e \<Rightarrow> Inl (with_diff a v e)
       | Inr _ \<Rightarrow> Inr this, s))"

definition toNotEqual :: "collab \<Rightarrow> jsval \<Rightarrow> jsval \<Rightarrow> ref \<Rightarrow> heap \<Rightarrow> outcome" where
  "toNotEqual c v msg this s =
     (let a = actual (objs s this) in
      (andThen (assert c (Bool (\<not> isEqual a v)) (js_or msg (Str ''Expected %s to not equal %s'')) [a, v])
         (Inr this), s))"

definition toThrow :: "collab \<Rightarrow> jsval \<Rightarrow> jsval \<Rightarrow> ref \<Rightarrow> heap \<Rightarrow> outcome" where
  \<open>toThrow c v msg this s =
     (let e = objs s this; a = actual e in
      (andThen (assert c (Bool (isFunction a))
                 (Str ''The "actual" argument in expect(actual).toThrow() must be a function, %s was given'') [a])
      (andThen (assert c (Bool (functionThrows c a (context e) (args e) v))
                 (js_or msg (Str ''Expected %s to throw %s'')) [a, js_or v (Str ''an error'')])
         (Inr this)), s))\<close>

definition toNotThrow :: "collab \<Rightarrow> jsval \<Rightarrow> jsval \<Rightarrow> ref \<Rightarrow> heap \<Rightarrow> outcome" where
  \<open>toNotThrow c v msg this s =
     (let e = objs s this; a = actual e in
      (andThen (assert c (Bool (isFunction a))
                 (Str ''The "actual" argument in expect(actual).toNotThrow() must be a function, %s was given'') [a])
      (andThen (assert c (Bool (\<not> functionThrows c a (context e) (args e) v))
                 (js_or msg (Str ''Expected %s to not throw %s'')) [a, js_or v (Str ''an error'')])
         (Inr this)), s))\<close>

definition toBeA :: "collab \<Rightarrow> jsval \<Rightarrow> jsval \<Rightarrow> ref \<Rightarrow> heap \<Rightarrow> outcome" where
  \<open>toBeA c v msg this s =
     (let a = actual (objs s this) in
      (andThen (assert c (Bool (isFunction v \<or> typeof v = ''string''))
                 (Str ''The "value" argument in toBeA(value) must be a function or a string'') [])
      (andThen (assert c (Bool (isA c a v)) (js_or msg (Str ''Expected %s to be a %s'')) [a, v])
         (Inr this)), s))\<close>

definition toNotBeA :: "collab \<Rightarrow> jsval \<Rightarrow> jsval \<Rightarrow> ref \<Rightarrow> heap \<Rightarrow> outcome" where
  \<open>toNotBeA c v msg this s =
     (let a = actual (objs s this) in
      (andThen (assert c (Bool (isFunction v \<or> typeof v = ''string''))
                 (Str ''The "value" argument in toNotBeA(value) must be a function or a string'') [])
      (andThen (assert c (Bool (\<not> isA c a v)) (js_or msg (Str ''Expected %s to be a %s'')) [a, v])
         (Inr this)), s))\<close>

definition toMatch :: "collab \<Rightarrow> jsval \<Rightarrow> jsval \<Rightarrow> ref \<Rightarrow> heap \<Rightarrow> outcome" where
  \<open>toMatch c pattern msg this s =
     (let a = actual (objs s this) in
      (andThen (assert c (Bool (typeof a = ''string''))
                 (Str ''The "actual" argument in expect(actual).toMatch() must be a string'') [])
      (andThen (assert c (Bool (isRegExp pattern))
                 (Str ''The "value" argument in toMatch(value) must be a RegExp'') [])
      (andThen (assert c (Bool (regexp_test c pattern a))
                 (js_or msg (Str ''Expected %s to match %s'')) [a, pattern])
         (Inr this))), s))\<close>

definition toNotMatch :: "collab \<Rightarrow> jsval \<Rightarrow> jsval \<Rightarrow> ref \<Rightarrow> heap \<Rightarrow> outcome" where
  \<open>toNotMatch c pattern msg this s =
     (let a = actual (objs s this) in
      (andThen (assert c (Bool (typeof a = ''string''))
                 (Str ''The "actual" argument in expect(actual).toNotMatch() must be a string'') [])
      (andThen (assert c (Bool (isRegExp pattern))
                 (Str ''The "value" argument in toNotMatch(value) must be a RegExp'') [])
      (andThen (assert c (Bool (\<not> regexp_test c pattern a))
                 (js_or msg (Str ''Expected %s to not match %s'')) [a, pattern])
         (Inr this))), s))\<close>

text \<open>
  The relational operators, where both operands are numbers. The two assertions that
  come first in each ordering method let nothing else reach the comparison; on other
  operands the language would coerce, and the value here is \<open>False\<close>.
\<close>

fun js_lt :: "jsval \<Rightarrow> jsval \<Rightarrow> bool" where
  "js_lt (Num x) (Num y) = num_lt x y"
| "js_lt _ _ = False"

fun js_le :: "jsval \<Rightarrow> jsval \<Rightarrow> bool" where
  "js_le (Num x) (Num y) = num_le x y"
| "js_le _ _ = False"

definition js_gt :: "jsval \<Rightarrow> jsval \<Rightarrow> bool" where
  "js_gt a b = js_lt b a"

definition js_ge :: "jsval \<Rightarrow> jsval \<Rightarrow> bool" where
  "js_ge a b = js_le b a"

definition toBeLessThan :: "collab \<Rightarrow> jsval \<Rightarrow> jsval \<Rightarrow> ref \<Rightarrow> heap \<Rightarrow> outcome" where
  \<open>toBeLessThan c v msg this s =
     (let a = actual (objs s this) in
      (andThen (assert c (Bool (typeof a = ''number''))
                 (Str ''The "actual" argument in expect(actual).toBeLessThan() must be a number'') [])
      (andThen (assert c (Bool (typeof v = ''number''))
                 (Str ''The "value" argument in toBeLessThan(value) must be a number'') [])
      (andThen (assert c (Bool (js_lt a v))
                 (js_or msg (Str ''Expected %s to be less than %s'')) [a, v])
         (Inr this))), s))\<close>

definition toBeLessThanOrEqualTo :: "collab \<Rightarrow> jsval \<Rightarrow> jsval \<Rightarrow> ref \<Rightarrow> heap \<Rightarrow> outcome" where
  \<open>toBeLessThanOrEqualTo c v msg this s =
     (let a = actual (objs s this) in
      (andThen (assert c (Bool (typeof a = ''number''))
                 (Str ''The "actual" argument in expect(actual).toBeLessThanOrEqualTo() must be a number'') [])
      (andThen (assert c (Bool (typeof v = ''number''))
                 (Str ''The "value" argument in toBeLessThanOrEqualTo(value) must be a number'') [])
      (andThen (assert c (Bool (js_le a v))
                 (js_or msg (Str ''Expected %s to be less than or equal to %s'')) [a, v])
         (Inr this))), s))\<close>

definition toBeGreaterThan :: "collab \<Rightarrow> jsval \<Rightarrow> jsval \<Rightarrow> ref \<Rightarrow> heap \<Rightarrow> outcome" where
  \<open>toBeGreaterThan c v msg this s =
     (let a = actual (objs s this) in
      (andThen (assert c (Bool (typeof a = ''number''))
                 (Str ''The "actual" argument in expect(actual).toBeGreaterThan() must be a number'') [])
      (andThen (assert c (Bool (typeof v = ''number''))
                 (Str ''The "value" argument in toBeGreaterThan(value) must be a number'') [])
      (andThen (assert c (Bool (js_gt a v))
                 (js_or msg (Str ''Expected %s to be greater than %s'')) [a, v])
         (Inr this))), s))\<close>

definition toBeGreaterThanOrEqualTo :: "collab \<Rightarrow> jsval \<Rightarrow> jsval \<Rightarrow> ref \<Rightarrow> heap \<Rightarrow> outcome" where
  \<open>toBeGreaterThanOrEqualTo c v msg this s =
     (let a = actual (objs s this) in
      (andThen (assert c (Bool (typeof a = ''number''))
                 (Str ''The "actual" argument in expect(actual).toBeGreaterThanOrEqualTo() must be a number'') [])
      (andThen (assert c (Bool (typeof v = ''number''))
                 (Str ''The "value" argument in toBeGreaterThanOrEqualTo(value) must be a number'') [])
      (andThen (assert c (Bool (js_ge a v))
                 (js_or msg (Str ''Expected %s to be greater than or equal to %s'')) [a, v])
         (Inr this))), s))\<close>

text \<open>
  \<^verbatim>\<open>toInclude(value, compareValues, message)\<close> assigns to two of its parameters:
  \<open>compareValues0\<close> and \<open>msg0\<close> are the arguments as passed, \<open>msg\<close> and
  \<open>compareValues1\<close> the parameters after the first \<^verbatim>\<open>if\<close>, and \<open>compareValues\<close> the
  comparator after the second. An exception of the containment helper leaves the
  method as it is.
\<close>

definition toInclude :: "collab \<Rightarrow> jsval \<Rightarrow> jsval \<Rightarrow> jsval \<Rightarrow> ref \<Rightarrow> heap \<Rightarrow> outcome" where
  \<open>toInclude c v compareValues0 msg0 this s =
     (let a = actual (objs s this);
          msg = (if typeof compareValues0 = ''string'' then compareValues0 else msg0);
          compareValues1 = (if typeof compareValues0 = ''string'' then Null else compareValues0);
          compareValues = (if eq_null compareValues1 then returning isEqual
                           else apply_compare c compareValues1)
      in
      (andThen (assert c (Bool (isArray a \<or> isObject a \<or> typeof a = ''string''))
                 (Str ''The "actual" argument in expect(actual).toInclude() must be an array, object, or a string'') [])
      (case (if isArray a then arrayContains a v compareValues
             else if isObject a then objectContains a v compareValues
             else Inr (stringContains c a v)) of
         Inl e \<Rightarrow> Inl e
       | Inr contains \<Rightarrow>
           andThen (assert c (Bool (contains))
                     (js_or msg (Str ''Expected %s to include %s'')) [a, v])
             (Inr this)), s))\<close>

definition toExclude :: "collab \<Rightarrow> jsval \<Rightarrow> jsval \<Rightarrow> jsval \<Rightarrow> ref \<Rightarrow> heap \<Rightarrow> outcome" where
  \<open>toExclude c v compareValues0 msg0 this s =
     (let a = actual (objs s this);
          msg = (if typeof compareValues0 = ''string'' then compareValues0 else msg0);
          compareValues1 = (if typeof compareValues0 = ''string'' then Null else compareValues0);
          compareValues = (if eq_null compareValues1 then returning isEqual
                           else apply_compare c compareValues1)
      in
      (andThen (assert c (Bool (isArray a \<or> isObject a \<or> typeof a = ''string''))
                 (Str ''The "actual" argument in expect(actual).toExclude() must be an array, object, or a string'') [])
      (case (if isArray a then arrayContains a v compareValues
             else if isObject a then objectContains a v compareValues
             else Inr (stringContains c a v)) of
         Inl e \<Rightarrow> Inl e
       | Inr contains \<Rightarrow>
           andThen (assert c (Bool (\<not> contains))
                     (js_or msg (Str ''Expected %s to exclude %s'')) [a, v])
             (Inr this)), s))\<close>

text \<open>\<^verbatim>\<open>spy.calls\<close>, read only after \<^verbatim>\<open>isSpy(spy)\<close> has been asserted.\<close>

fun calls :: "jsval \<Rightarrow> (ref \<times> jsval list) list" where
  "calls (Spy _ cs) = cs"
| "calls _ = []"

definition toHaveBeenCalled :: "collab \<Rightarrow> jsval \<Rightarrow> ref \<Rightarrow> heap \<Rightarrow> outcome" where
  \<open>toHaveBeenCalled c msg this s =
     (let spy = actual (objs s this) in
      (andThen (assert c (Bool (isSpy spy))
                 (Str ''The "actual" argument in expect(actual).toHaveBeenCalled() must be a spy'') [])
      (andThen (assert c (Bool (length (calls spy) > 0)) (js_or msg (Str ''spy was not called'')) [])
         (Inr this)), s))\<close>

text \<open>The rest parameter \<^verbatim>\<open>expectedArgs\<close> is a new array, allocated as the call starts.\<close>

definition toHaveBeenCalledWith :: "collab \<Rightarrow> jsval list \<Rightarrow> ref \<Rightarrow> heap \<Rightarrow> outcome" where
  \<open>toHaveBeenCalledWith c es this s =
     (let expectedArgs = Arr (fresh s) es;
          s' = s\<lparr>fresh := Suc (fresh s)\<rparr>;
          spy = actual (objs s this) in
      (andThen (assert c (Bool (isSpy spy))
                 (Str ''The "actual" argument in expect(actual).toHaveBeenCalledWith() must be a spy'') [])
      (andThen (assert c (Bool (list_ex (\<lambda>(r, arguments). isEqual (Arr r arguments) expectedArgs) (calls spy)))
                 (Str ''spy was never called with %s'') [expectedArgs])
         (Inr this)), s'))\<close>

definition toNotHaveBeenCalled :: "collab \<Rightarrow> jsval \<Rightarrow> ref \<Rightarrow> heap \<Rightarrow> outcome" where
  \<open>toNotHaveBeenCalled c msg this s =
     (let spy = actual (objs s this) in
      (andThen (assert c (Bool (isSpy spy))
                 (Str ''The "actual" argument in expect(actual).toNotHaveBeenCalled() must be a spy'') [])
      (andThen (assert c (Bool (length (calls spy) = 0))
                 (js_or msg (Str ''spy was not supposed to be called'')) [])
         (Inr this)), s))\<close>

definition withContext :: "collab \<Rightarrow> jsval \<Rightarrow> ref \<Rightarrow> heap \<Rightarrow> outcome" where
  \<open>withContext c ctx this s =
     (let e = objs s this in
      case assert c (Bool (isFunction (actual e)))
             (Str ''The "actual" argument in expect(actual).withContext() must be a function'') [] of
        Inl x \<Rightarrow> (Inl x, s)
      | Inr _ \<Rightarrow> (Inr this, s\<lparr>objs := (objs s)(this := e\<lparr>context := ctx\<rparr>)\<rparr>))\<close>

definition withArgs :: "collab \<Rightarrow> jsval list \<Rightarrow> ref \<Rightarrow> heap \<Rightarrow> outcome" where
  \<open>withArgs c as this s =
     (let e = objs s this in
      case assert c (Bool (isFunction (actual e)))
             (Str ''The "actual" argument in expect(actual).withArgs() must be a function'') [] of
        Inl x \<Rightarrow> (Inl x, s)
      | Inr _ \<Rightarrow>
          if length as \<noteq> 0
          then (case args e of
                  None \<Rightarrow> (Inl TypeError, s)
                | Some xs \<Rightarrow>
                    (Inr this, s\<lparr>objs := (objs s)(this := e\<lparr>args := Some (Array_concat xs as)\<rparr>)\<rparr>))
          else (Inr this, s))\<close>

section \<open>The method table and its aliases\<close>

text \<open>
  A call \<^verbatim>\<open>w.name(a1, ..., an)\<close> looks \<open>name\<close> up in \<^verbatim>\<open>Expectation.prototype\<close> and
  applies what it finds to the argument list; a parameter with no argument is
  \<^verbatim>\<open>undefined\<close>.
\<close>

type_synonym implementation = "collab \<Rightarrow> jsval list \<Rightarrow> ref \<Rightarrow> heap \<Rightarrow> outcome"

definition arg :: "jsval list \<Rightarrow> nat \<Rightarrow> jsval" where
  "arg as i = (if i < length as then as ! i else Undefined)"

text \<open>The methods of the class body, in the order they are declared.\<close>

definition class_body :: "(string \<times> implementation) list" where
  "class_body =
     [(''toExist'', \<lambda>c as. toExist c (arg as 0)),
      (''toNotExist'', \<lambda>c as. toNotExist c (arg as 0)),
      (''toBe'', \<lambda>c as. toBe c (arg as 0) (arg as 1)),
      (''toNotBe'', \<lambda>c as. toNotBe c (arg as 0) (arg as 1)),
      (''toEqual'', \<lambda>c as. toEqual c (arg as 0) (arg as 1)),
      (''toNotEqual'', \<lambda>c as. toNotEqual c (arg as 0) (arg as 1)),
      (''toThrow'', \<lambda>c as. toThrow c (arg as 0) (arg as 1)),
      (''toNotThrow'', \<lambda>c as. toNotThrow c (arg as 0) (arg as 1)),
      (''toBeA'', \<lambda>c as. toBeA c (arg as 0) (arg as 1)),
      (''toNotBeA'', \<lambda>c as. toNotBeA c (arg as 0) (arg as 1)),
      (''toMatch'', \<lambda>c as. toMatch c (arg as 0) (arg as 1)),
      (''toNotMatch'', \<lambda>c as. toNotMatch c (arg as 0) (arg as 1)),
      (''toBeLessThan'', \<lambda>c as. toBeLessThan c (arg as 0) (arg as 1)),
      (''toBeLessThanOrEqualTo'', \<lambda>c as. toBeLessThanOrEqualTo c (arg as 0) (arg as 1)),
      (''toBeGreaterThan'', \<lambda>c as. toBeGreaterThan c (arg as 0) (arg as 1)),
      (''toBeGreaterThanOrEqualTo'', \<lambda>c as. toBeGreaterThanOrEqualTo c (arg as 0) (arg as 1)),
      (''toInclude'', \<lambda>c as. toInclude c (arg as 0) (arg as 1) (arg as 2)),
      (''toExclude'', \<lambda>c as. toExclude c (arg as 0) (arg as 1) (arg as 2)),
      (''toHaveBeenCalled'', \<lambda>c as. toHaveBeenCalled c (arg as 0)),
      (''toHaveBeenCalledWith'', \<lambda>c as. toHaveBeenCalledWith c as),
      (''toNotHaveBeenCalled'', \<lambda>c as. toNotHaveBeenCalled c (arg as 0)),
      (''withContext'', \<lambda>c as. withContext c (arg as 0)),
      (''withArgs'', \<lambda>c as. withArgs c as)]"

definition aliases :: "(string \<times> string) list" where
  "aliases =
     [(''toBeAn'', ''toBeA''),
      (''toNotBeAn'', ''toNotBeA''),
      (''toBeTruthy'', ''toExist''),
      (''toBeFalsy'', ''toNotExist''),
      (''toBeFewerThan'', ''toBeLessThan''),
      (''toBeMoreThan'', ''toBeGreaterThan''),
      (''toContain'', ''toInclude''),
      (''toNotContain'', ''toExclude'')]"

text \<open>The loop at the end of the module:
  \<^verbatim>\<open>Expectation.prototype[alias] = Expectation.prototype[aliases[alias]]\<close>,
  one alias after the other.\<close>

definition bind_alias :: "string \<times> string \<Rightarrow> (string \<rightharpoonup> implementation) \<Rightarrow> (string \<rightharpoonup> implementation)" where
  "bind_alias p proto = proto(fst p := proto (snd p))"

definition prototype :: "string \<rightharpoonup> implementation" where
  "prototype = fold bind_alias aliases (map_of class_body)"

text \<open>Calling a property that is not a function is a \<^verbatim>\<open>TypeError\<close>.\<close>

definition invoke :: "collab \<Rightarrow> string \<Rightarrow> jsval list \<Rightarrow> ref \<Rightarrow> heap \<Rightarrow> outcome" where
  "invoke c name as this s =
     (case prototype name of None \<Rightarrow> (Inl TypeError, s) | Some m \<Rightarrow> m c as this s)"

text \<open>A call passes when it returns, and fails when it throws.\<close>

definition passes :: "outcome \<Rightarrow> bool" where
  "passes out = (case fst out of Inl _ \<Rightarrow> False | Inr _ \<Rightarrow> True)"

text \<open>The four ordering predicates, with the name each is declared under, the words of
  its default message and the relational operator it applies to two numbers.\<close>

datatype ordering = LessThan | LessThanOrEqualTo | GreaterThan | GreaterThanOrEqualTo

fun ordering_method :: "ordering \<Rightarrow> collab \<Rightarrow> jsval \<Rightarrow> jsval \<Rightarrow> ref \<Rightarrow> heap \<Rightarrow> outcome" where
  "ordering_method LessThan = toBeLessThan"
| "ordering_method LessThanOrEqualTo = toBeLessThanOrEqualTo"
| "ordering_method GreaterThan = toBeGreaterThan"
| "ordering_method GreaterThanOrEqualTo = toBeGreaterThanOrEqualTo"

fun ordering_name :: "ordering \<Rightarrow> string" where
  "ordering_name LessThan = ''toBeLessThan''"
| "ordering_name LessThanOrEqualTo = ''toBeLessThanOrEqualTo''"
| "ordering_name GreaterThan = ''toBeGreaterThan''"
| "ordering_name GreaterThanOrEqualTo = ''toBeGreaterThanOrEqualTo''"

fun ordering_words :: "ordering \<Rightarrow> string" where
  "ordering_words LessThan = ''less than''"
| "ordering_words LessThanOrEqualTo = ''less than or equal to''"
| "ordering_words GreaterThan = ''greater than''"
| "ordering_words GreaterThanOrEqualTo = ''greater than or equal to''"

fun ordering_holds :: "ordering \<Rightarrow> jsnum \<Rightarrow> jsnum \<Rightarrow> bool" where
  "ordering_holds LessThan x y = num_lt x y"
| "ordering_holds LessThanOrEqualTo x y = num_le x y"
| "ordering_holds GreaterThan x y = num_lt y x"
| "ordering_holds GreaterThanOrEqualTo x y = num_le y x"

text \<open>The heap before any wrapper is made.\<close>

definition empty_heap :: heap where
  "empty_heap =
     \<lparr>objs = (\<lambda>_. \<lparr>actual = Undefined, context = Undefined, args = None\<rparr>), fresh = 0\<rparr>"

text \<open>Modelled from the spec: \<^verbatim>\<open>expect\<close>, the constructor function of the public
  surface (section 6), which makes a wrapper of the observed value; here it makes the
  first wrapper, on the heap that holds none.\<close>

definition expect :: "jsval \<Rightarrow> ref \<times> heap" where
  "expect a = Expectation a empty_heap"


text \<open>
  Two properties of a method, whatever the collaborators, the arguments, the wrapper and
  the heap: \<open>chainable\<close>, it returns the wrapper it was called on and leaves the subject
  of every wrapper as it was; \<open>no_diff\<close>, an error it throws has none of the three diff
  properties.
\<close>

definition chainable :: "implementation \<Rightarrow> bool" where
  "chainable m = (\<forall>c as this s.
      (\<forall>r. fst (m c as this s) = Inr r \<longrightarrow> r = this)
      \<and> (\<forall>w. actual (objs (snd (m c as this s)) w) = actual (objs s w)))"

definition no_diff :: "implementation \<Rightarrow> bool" where
  "no_diff m = (\<forall>c as this s e. fst (m c as this s) = Inl (Thrown e) \<longrightarrow>
      showDiff e = None \<and> e_actual e = None \<and> e_expected e = None)"

section \<open>Properties\<close>

subsection \<open>Sequencing, the reporter and the constructor\<close>

lemma andThen_Inr [simp]: "(andThen x y = Inr r) = (x = Inr () \<and> y = Inr r)"
  by (cases x) (simp_all add: andThen_def)

lemma andThen_Inl [simp]: "(andThen x y = Inl e) = (x = Inl e \<or> (x = Inr () \<and> y = Inl e))"
  by (cases x) (simp_all add: andThen_def)

lemma assert_Inr [simp]: "(assert c b t vs = Inr u) = truthy b"
  by (simp add: assert_def)

lemma assert_Inl [simp]: "(assert c b t vs = Inl e) = (\<not> truthy b \<and> e = failure c t vs)"
  by (auto simp: assert_def)

lemma passes_andThen_assert: "passes (andThen (assert c b t vs) (Inr r), s) = truthy b"
  by (simp add: passes_def andThen_def assert_def)

lemma actual_expect [simp]: "actual (objs (snd (expect a)) (fst (expect a))) = a"
  by (simp add: expect_def Expectation_def Let_def)

lemma args_expect_function [simp]:
  "isFunction a \<Longrightarrow> args (objs (snd (expect a)) (fst (expect a))) = Some []"
  by (simp add: expect_def Expectation_def Let_def)

subsection \<open>Identity and order on numbers\<close>

lemma strict_eq_typeof: "strict_eq a b \<Longrightarrow> typeof a = typeof b"
  by (cases a; cases b) auto

lemma num_lt_NaN [simp]: "\<not> num_lt NaN x" "\<not> num_lt x NaN"
  by (cases x; simp)+

lemma num_le_NaN [simp]: "\<not> num_le NaN x" "\<not> num_le x NaN"
  by (cases x; simp)+

subsection \<open>Deep equality of arrays\<close>

lemma isEqual_list_all2: "isEqual_list xs ys = list_all2 isEqual xs ys"
  by (induction xs arbitrary: ys) (auto split: list.splits simp: list_all2_Cons1)

subsection \<open>What \<^verbatim>\<open>concat\<close> appends\<close>

lemma concat_item_not_array:
  "\<forall>a \<in> set as. \<not> isArray a \<Longrightarrow> concat (map concat_item as) = as"
proof (induction as)
  case Nil
  then show ?case by simp
next
  case (Cons a as)
  then show ?case by (cases a) simp_all
qed

lemma withArgs_callable:
  assumes "isFunction (actual (objs s this))" and "args (objs s this) = Some xs"
  shows "withArgs c as this s =
           (Inr this,
            if as = [] then s
            else s\<lparr>objs := (objs s)(this := (objs s this)
                     \<lparr>args := Some (xs @ concat (map concat_item as))\<rparr>)\<rparr>)"
  using assms by (simp add: withArgs_def Let_def assert_def Array_concat_def)

lemma withArgs_no_array_argument:
  assumes "isFunction (actual (objs s this))" and "args (objs s this) = Some xs"
    and "as \<noteq> []" and "\<forall>a \<in> set as. \<not> isArray a"
  shows "withArgs c as this s =
           (Inr this, s\<lparr>objs := (objs s)(this := (objs s this)\<lparr>args := Some (xs @ as)\<rparr>)\<rparr>)"
  using assms by (simp add: withArgs_callable concat_item_not_array)

subsection \<open>Comparators that throw and comparators that return\<close>

lemma returning_Inr [simp]: "returning f a b = Inr (f a b)"
  by (simp add: returning_def)

lemma apply_compare_not_Thrown [simp]: "apply_compare c f a b \<noteq> Inl (Thrown e)"
  by (simp add: apply_compare_def split: sum.splits)

lemma some_item_not_Thrown:
  "(\<And>x. f x \<noteq> Inl (Thrown e)) \<Longrightarrow> some_item f xs \<noteq> Inl (Thrown e)"
  by (induction xs) (auto split: sum.splits)

lemma every_item_not_Thrown:
  "(\<And>x. f x \<noteq> Inl (Thrown e)) \<Longrightarrow> every_item f xs \<noteq> Inl (Thrown e)"
  by (induction xs) (auto split: sum.splits)

lemma arrayContains_not_Thrown:
  assumes "\<And>x y. cmp x y \<noteq> Inl (Thrown e)"
  shows "arrayContains a v cmp \<noteq> Inl (Thrown e)"
proof (cases a)
  case (Arr r xs)
  have inner: "some_item (\<lambda>item. cmp item w) xs \<noteq> Inl (Thrown e)" for w
    by (rule some_item_not_Thrown) (rule assms)
  have outer: "every_item (\<lambda>w. some_item (\<lambda>item. cmp item w) xs) vs \<noteq> Inl (Thrown e)" for vs
    by (rule every_item_not_Thrown) (rule inner)
  show ?thesis
    using inner [of v] outer by (cases v) (auto simp: Arr split: sum.splits)
qed simp_all

lemma objectContains_not_Thrown:
  assumes "\<And>x y. cmp x y \<noteq> Inl (Thrown e)"
  shows "objectContains a v cmp \<noteq> Inl (Thrown e)"
proof (cases a)
  case (Obj r ps)
  have "every_item (\<lambda>(k, w). case map_of ps k of None \<Rightarrow> Inr False | Some x \<Rightarrow> cmp x w) qs
          \<noteq> Inl (Thrown e)" for qs
    by (rule every_item_not_Thrown) (auto split: option.splits simp: assms)
  then show ?thesis
    by (cases v) (auto simp: Obj)
qed simp_all

lemma some_item_returns: "(\<And>x. \<exists>r. f x = Inr r) \<Longrightarrow> \<exists>r. some_item f xs = Inr r"
proof (induction xs)
  case Nil
  then show ?case by auto
next
  case (Cons x xs)
  from Cons.prems obtain r where "f x = Inr r" by blast
  with Cons show ?case by auto
qed

lemma every_item_returns: "(\<And>x. \<exists>r. f x = Inr r) \<Longrightarrow> \<exists>r. every_item f xs = Inr r"
proof (induction xs)
  case Nil
  then show ?case by auto
next
  case (Cons x xs)
  from Cons.prems obtain r where "f x = Inr r" by blast
  with Cons show ?case by auto
qed

lemma arrayContains_returns:
  assumes "\<And>x y. \<exists>r. cmp x y = Inr r"
  shows "\<exists>r. arrayContains a v cmp = Inr r"
proof (cases a)
  case (Arr r xs)
  have inner: "\<exists>r. some_item (\<lambda>item. cmp item w) xs = Inr r" for w
    by (rule some_item_returns) (rule assms)
  have outer: "\<exists>r. every_item (\<lambda>w. some_item (\<lambda>item. cmp item w) xs) vs = Inr r" for vs
    by (rule every_item_returns) (rule inner)
  from inner [of v] obtain found where "some_item (\<lambda>item. cmp item v) xs = Inr found" by blast
  then show ?thesis
    using outer by (cases v) (auto simp: Arr)
qed auto

lemma objectContains_returns:
  assumes "\<And>x y. \<exists>r. cmp x y = Inr r"
  shows "\<exists>r. objectContains a v cmp = Inr r"
proof (cases a)
  case (Obj r ps)
  have "\<exists>r. every_item (\<lambda>(k, w). case map_of ps k of None \<Rightarrow> Inr False | Some x \<Rightarrow> cmp x w) qs
          = Inr r" for qs
    by (rule every_item_returns) (auto split: option.splits simp: assms)
  then show ?thesis
    by (cases v) (auto simp: Obj)
qed auto


lemma contains_not_Thrown [simp]:
  "arrayContains a v (returning f) \<noteq> Inl (Thrown e)"
  "arrayContains a v (apply_compare c g) \<noteq> Inl (Thrown e)"
  "objectContains a v (returning f) \<noteq> Inl (Thrown e)"
  "objectContains a v (apply_compare c g) \<noteq> Inl (Thrown e)"
  by (rule arrayContains_not_Thrown objectContains_not_Thrown; simp)+


subsection \<open>The alias loop keeps what holds of the class body\<close>

lemma fold_bind_alias_invariant:
  "(\<forall>p \<in> set xs. snd p \<notin> B) \<Longrightarrow> (\<forall>k m. k \<notin> B \<longrightarrow> proto k = Some m \<longrightarrow> Q m)
   \<Longrightarrow> k \<notin> B \<Longrightarrow> fold bind_alias xs proto k = Some m \<Longrightarrow> Q m"
proof (induction xs arbitrary: proto)
  case Nil
  then show ?case by simp
next
  case (Cons p xs)
  have "\<forall>k m. k \<notin> B \<longrightarrow> bind_alias p proto k = Some m \<longrightarrow> Q m"
    using Cons.prems(1,2) by (auto simp: bind_alias_def split: if_splits)
  then show ?case
    using Cons.IH [of "bind_alias p proto"] Cons.prems by simp
qed

subsection \<open>Each method of the class body\<close>

lemma chainable_toExist: "chainable (\<lambda>c as. toExist c (arg as 0))"
  by (auto simp: chainable_def toExist_def Let_def split: sum.splits option.splits)

lemma chainable_toNotExist: "chainable (\<lambda>c as. toNotExist c (arg as 0))"
  by (auto simp: chainable_def toNotExist_def Let_def split: sum.splits option.splits)

lemma chainable_toBe: "chainable (\<lambda>c as. toBe c (arg as 0) (arg as 1))"
  by (auto simp: chainable_def toBe_def Let_def split: sum.splits option.splits)

lemma chainable_toNotBe: "chainable (\<lambda>c as. toNotBe c (arg as 0) (arg as 1))"
  by (auto simp: chainable_def toNotBe_def Let_def split: sum.splits option.splits)

lemma chainable_toEqual: "chainable (\<lambda>c as. toEqual c (arg as 0) (arg as 1))"
  by (auto simp: chainable_def toEqual_def Let_def split: sum.splits option.splits)

lemma chainable_toNotEqual: "chainable (\<lambda>c as. toNotEqual c (arg as 0) (arg as 1))"
  by (auto simp: chainable_def toNotEqual_def Let_def split: sum.splits option.splits)

lemma chainable_toThrow: "chainable (\<lambda>c as. toThrow c (arg as 0) (arg as 1))"
  by (auto simp: chainable_def toThrow_def Let_def split: sum.splits option.splits)

lemma chainable_toNotThrow: "chainable (\<lambda>c as. toNotThrow c (arg as 0) (arg as 1))"
  by (auto simp: chainable_def toNotThrow_def Let_def split: sum.splits option.splits)

lemma chainable_toBeA: "chainable (\<lambda>c as. toBeA c (arg as 0) (arg as 1))"
  by (auto simp: chainable_def toBeA_def Let_def split: sum.splits option.splits)

lemma chainable_toNotBeA: "chainable (\<lambda>c as. toNotBeA c (arg as 0) (arg as 1))"
  by (auto simp: chainable_def toNotBeA_def Let_def split: sum.splits option.splits)

lemma chainable_toMatch: "chainable (\<lambda>c as. toMatch c (arg as 0) (arg as 1))"
  by (auto simp: chainable_def toMatch_def Let_def split: sum.splits option.splits)

lemma chainable_toNotMatch: "chainable (\<lambda>c as. toNotMatch c (arg as 0) (arg as 1))"
  by (auto simp: chainable_def toNotMatch_def Let_def split: sum.splits option.splits)

lemma chainable_toBeLessThan: "chainable (\<lambda>c as. toBeLessThan c (arg as 0) (arg as 1))"
  by (auto simp: chainable_def toBeLessThan_def Let_def split: sum.splits option.splits)

lemma chainable_toBeLessThanOrEqualTo: "chainable (\<lambda>c as. toBeLessThanOrEqualTo c (arg as 0) (arg as 1))"
  by (auto simp: chainable_def toBeLessThanOrEqualTo_def Let_def split: sum.splits option.splits)

lemma chainable_toBeGreaterThan: "chainable (\<lambda>c as. toBeGreaterThan c (arg as 0) (arg as 1))"
  by (auto simp: chainable_def toBeGreaterThan_def Let_def split: sum.splits option.splits)

lemma chainable_toBeGreaterThanOrEqualTo: "chainable (\<lambda>c as. toBeGreaterThanOrEqualTo c (arg as 0) (arg as 1))"
  by (auto simp: chainable_def toBeGreaterThanOrEqualTo_def Let_def split: sum.splits option.splits)

lemma chainable_toInclude: "chainable (\<lambda>c as. toInclude c (arg as 0) (arg as 1) (arg as 2))"
  by (auto simp: chainable_def toInclude_def Let_def split: sum.splits option.splits)

lemma chainable_toExclude: "chainable (\<lambda>c as. toExclude c (arg as 0) (arg as 1) (arg as 2))"
  by (auto simp: chainable_def toExclude_def Let_def split: sum.splits option.splits)

lemma chainable_toHaveBeenCalled: "chainable (\<lambda>c as. toHaveBeenCalled c (arg as 0))"
  by (auto simp: chainable_def toHaveBeenCalled_def Let_def split: sum.splits option.splits)

lemma chainable_toHaveBeenCalledWith: "chainable (\<lambda>c as. toHaveBeenCalledWith c as)"
  by (auto simp: chainable_def toHaveBeenCalledWith_def Let_def split: sum.splits option.splits)

lemma chainable_toNotHaveBeenCalled: "chainable (\<lambda>c as. toNotHaveBeenCalled c (arg as 0))"
  by (auto simp: chainable_def toNotHaveBeenCalled_def Let_def split: sum.splits option.splits)

lemma chainable_withContext: "chainable (\<lambda>c as. withContext c (arg as 0))"
  by (auto simp: chainable_def withContext_def Let_def split: sum.splits option.splits)

lemma chainable_withArgs: "chainable (\<lambda>c as. withArgs c as)"
  by (auto simp: chainable_def withArgs_def Let_def split: sum.splits option.splits)

lemma no_diff_toExist: "no_diff (\<lambda>c as. toExist c (arg as 0))"
  by (auto simp: no_diff_def toExist_def Let_def failure_def split: sum.splits option.splits if_splits)

lemma no_diff_toNotExist: "no_diff (\<lambda>c as. toNotExist c (arg as 0))"
  by (auto simp: no_diff_def toNotExist_def Let_def failure_def split: sum.splits option.splits if_splits)

lemma no_diff_toBe: "no_diff (\<lambda>c as. toBe c (arg as 0) (arg as 1))"
  by (auto simp: no_diff_def toBe_def Let_def failure_def split: sum.splits option.splits if_splits)

lemma no_diff_toNotBe: "no_diff (\<lambda>c as. toNotBe c (arg as 0) (arg as 1))"
  by (auto simp: no_diff_def toNotBe_def Let_def failure_def split: sum.splits option.splits if_splits)

lemma no_diff_toNotEqual: "no_diff (\<lambda>c as. toNotEqual c (arg as 0) (arg as 1))"
  by (auto simp: no_diff_def toNotEqual_def Let_def failure_def split: sum.splits option.splits if_splits)

lemma no_diff_toThrow: "no_diff (\<lambda>c as. toThrow c (arg as 0) (arg as 1))"
  by (auto simp: no_diff_def toThrow_def Let_def failure_def split: sum.splits option.splits if_splits)

lemma no_diff_toNotThrow: "no_diff (\<lambda>c as. toNotThrow c (arg as 0) (arg as 1))"
  by (auto simp: no_diff_def toNotThrow_def Let_def failure_def split: sum.splits option.splits if_splits)

lemma no_diff_toBeA: "no_diff (\<lambda>c as. toBeA c (arg as 0) (arg as 1))"
  by (auto simp: no_diff_def toBeA_def Let_def failure_def split: sum.splits option.splits if_splits)

lemma no_diff_toNotBeA: "no_diff (\<lambda>c as. toNotBeA c (arg as 0) (arg as 1))"
  by (auto simp: no_diff_def toNotBeA_def Let_def failure_def split: sum.splits option.splits if_splits)

lemma no_diff_toMatch: "no_diff (\<lambda>c as. toMatch c (arg as 0) (arg as 1))"
  by (auto simp: no_diff_def toMatch_def Let_def failure_def split: sum.splits option.splits if_splits)

lemma no_diff_toNotMatch: "no_diff (\<lambda>c as. toNotMatch c (arg as 0) (arg as 1))"
  by (auto simp: no_diff_def toNotMatch_def Let_def failure_def split: sum.splits option.splits if_splits)

lemma no_diff_toBeLessThan: "no_diff (\<lambda>c as. toBeLessThan c (arg as 0) (arg as 1))"
  by (auto simp: no_diff_def toBeLessThan_def Let_def failure_def split: sum.splits option.splits if_splits)

lemma no_diff_toBeLessThanOrEqualTo: "no_diff (\<lambda>c as. toBeLessThanOrEqualTo c (arg as 0) (arg as 1))"
  by (auto simp: no_diff_def toBeLessThanOrEqualTo_def Let_def failure_def split: sum.splits option.splits if_splits)

lemma no_diff_toBeGreaterThan: "no_diff (\<lambda>c as. toBeGreaterThan c (arg as 0) (arg as 1))"
  by (auto simp: no_diff_def toBeGreaterThan_def Let_def failure_def split: sum.splits option.splits if_splits)

lemma no_diff_toBeGreaterThanOrEqualTo: "no_diff (\<lambda>c as. toBeGreaterThanOrEqualTo c (arg as 0) (arg as 1))"
  by (auto simp: no_diff_def toBeGreaterThanOrEqualTo_def Let_def failure_def split: sum.splits option.splits if_splits)

lemma no_diff_toInclude: "no_diff (\<lambda>c as. toInclude c (arg as 0) (arg as 1) (arg as 2))"
  by (auto simp: no_diff_def toInclude_def Let_def failure_def split: sum.splits option.splits if_splits)

lemma no_diff_toExclude: "no_diff (\<lambda>c as. toExclude c (arg as 0) (arg as 1) (arg as 2))"
  by (auto simp: no_diff_def toExclude_def Let_def failure_def split: sum.splits option.splits if_splits)

lemma no_diff_toHaveBeenCalled: "no_diff (\<lambda>c as. toHaveBeenCalled c (arg as 0))"
  by (auto simp: no_diff_def toHaveBeenCalled_def Let_def failure_def split: sum.splits option.splits if_splits)

lemma no_diff_toHaveBeenCalledWith: "no_diff (\<lambda>c as. toHaveBeenCalledWith c as)"
  by (auto simp: no_diff_def toHaveBeenCalledWith_def Let_def failure_def split: sum.splits option.splits if_splits)

lemma no_diff_toNotHaveBeenCalled: "no_diff (\<lambda>c as. toNotHaveBeenCalled c (arg as 0))"
  by (auto simp: no_diff_def toNotHaveBeenCalled_def Let_def failure_def split: sum.splits option.splits if_splits)

lemma no_diff_withContext: "no_diff (\<lambda>c as. withContext c (arg as 0))"
  by (auto simp: no_diff_def withContext_def Let_def failure_def split: sum.splits option.splits if_splits)

lemma no_diff_withArgs: "no_diff (\<lambda>c as. withArgs c as)"
  by (auto simp: no_diff_def withArgs_def Let_def failure_def split: sum.splits option.splits if_splits)

lemmas chainable_methods =
  chainable_toExist chainable_toNotExist chainable_toBe chainable_toNotBe
  chainable_toEqual chainable_toNotEqual chainable_toThrow chainable_toNotThrow
  chainable_toBeA chainable_toNotBeA chainable_toMatch chainable_toNotMatch
  chainable_toBeLessThan chainable_toBeLessThanOrEqualTo chainable_toBeGreaterThan
  chainable_toBeGreaterThanOrEqualTo chainable_toInclude chainable_toExclude
  chainable_toHaveBeenCalled chainable_toHaveBeenCalledWith
  chainable_toNotHaveBeenCalled chainable_withContext chainable_withArgs

lemmas no_diff_methods =
  no_diff_toExist no_diff_toNotExist no_diff_toBe no_diff_toNotBe no_diff_toNotEqual
  no_diff_toThrow no_diff_toNotThrow no_diff_toBeA no_diff_toNotBeA no_diff_toMatch
  no_diff_toNotMatch no_diff_toBeLessThan no_diff_toBeLessThanOrEqualTo
  no_diff_toBeGreaterThan no_diff_toBeGreaterThanOrEqualTo no_diff_toInclude
  no_diff_toExclude no_diff_toHaveBeenCalled no_diff_toHaveBeenCalledWith
  no_diff_toNotHaveBeenCalled no_diff_withContext no_diff_withArgs

lemma class_body_chainable: "(k, m) \<in> set class_body \<Longrightarrow> chainable m"
  unfolding class_body_def using chainable_methods by auto

lemma class_body_no_diff: "(k, m) \<in> set class_body \<Longrightarrow> k \<noteq> ''toEqual'' \<Longrightarrow> no_diff m"
  unfolding class_body_def using no_diff_methods by auto

lemma prototype_chainable: "prototype name = Some m \<Longrightarrow> chainable m"
  unfolding prototype_def
  by (rule fold_bind_alias_invariant [where B = "{}" and Q = chainable])
     (auto dest: map_of_SomeD class_body_chainable)

lemma prototype_no_diff:
  assumes "prototype name = Some m" and "name \<noteq> ''toEqual''"
  shows "no_diff m"
proof (rule fold_bind_alias_invariant [where B = "{''toEqual''}" and Q = no_diff])
  show "\<forall>p \<in> set aliases. snd p \<notin> {''toEqual''}"
    by (simp add: aliases_def)
  show "\<forall>k m. k \<notin> {''toEqual''} \<longrightarrow> map_of class_body k = Some m \<longrightarrow> no_diff m"
    by (auto dest!: map_of_SomeD intro: class_body_no_diff)
  show "name \<notin> {''toEqual''}"
    using assms(2) by simp
  show "fold bind_alias aliases (map_of class_body) name = Some m"
    using assms(1) by (simp add: prototype_def)
qed

lemma prototype_toNotEqual:
  "prototype ''toNotEqual'' = Some (\<lambda>c as. toNotEqual c (arg as 0) (arg as 1))"
  by (simp add: prototype_def aliases_def bind_alias_def class_body_def)

lemma prototype_withArgs: "prototype ''withArgs'' = Some (\<lambda>c as. withArgs c as)"
  by (simp add: prototype_def aliases_def bind_alias_def class_body_def)

section \<open>The properties the specification states\<close>

text \<open>
  C1. On a wrapper whose subject is callable, \<^verbatim>\<open>withArgs(a1, ..., an)\<close> is to append the
  \<open>n\<close> values as they are, arrays included. The code calls
  \<^verbatim>\<open>this.args.concat(...args)\<close>, and \<^verbatim>\<open>concat\<close> appends the elements of an argument
  that is an array: on \<^verbatim>\<open>expect(f).withArgs([1, 2])\<close> the wrapper is returned and the
  argument list is \<open>[1, 2]\<close>, two values, and not the one value \<open>[[1, 2]]\<close>. (With
  no argument the list is unchanged, and arguments that are not arrays are appended as
  they are: \<open>withArgs_callable\<close>, \<open>withArgs_no_array_argument\<close>.)
\<close>

theorem withArgs_spreads_array_argument:
  "\<forall>c. (let w = expect (Fn 0);
             out = withArgs c [Arr 1 [Num (Finite 1), Num (Finite 2)]] (fst w) (snd w)
         in fst out = Inr (fst w)
            \<and> args (objs (snd out) (fst w)) = Some [Num (Finite 1), Num (Finite 2)]
            \<and> args (objs (snd out) (fst w)) \<noteq> Some [Arr 1 [Num (Finite 1), Num (Finite 2)]])"
  by (simp add: expect_def Expectation_def empty_heap_def withArgs_def Let_def assert_def
      isFunction_def Array_concat_def)

text \<open>
  C2. Whenever \<^verbatim>\<open>toEqual\<close> fails, the error it throws has \<^verbatim>\<open>showDiff\<close> set to true,
  \<^verbatim>\<open>actual\<close> set to the subject and \<^verbatim>\<open>expected\<close> set to the value compared with. An
  error thrown by \<^verbatim>\<open>toNotEqual\<close>, or by a call of any method name other than
  \<^verbatim>\<open>toEqual\<close>, has none of the three.
\<close>

theorem only_toEqual_carries_diff:
  "(\<forall>e. fst (toEqual c v msg this s) = Inl e \<longrightarrow>
      (\<exists>err. e = Thrown err \<and> showDiff err = Some True
         \<and> e_actual err = Some (actual (objs s this)) \<and> e_expected err = Some v))
   \<and> (\<forall>err. fst (toNotEqual c v msg this s) = Inl (Thrown err) \<longrightarrow>
      showDiff err = None \<and> e_actual err = None \<and> e_expected err = None)
   \<and> (\<forall>name as err.
        name \<noteq> ''toEqual'' \<and> fst (invoke c name as this s) = Inl (Thrown err) \<longrightarrow>
        showDiff err = None \<and> e_actual err = None \<and> e_expected err = None)"
proof (intro conjI allI impI)
  fix e
  assume "fst (toEqual c v msg this s) = Inl e"
  then show "\<exists>err. e = Thrown err \<and> showDiff err = Some True
         \<and> e_actual err = Some (actual (objs s this)) \<and> e_expected err = Some v"
    by (auto simp: toEqual_def Let_def failure_def split: sum.splits)
next
  fix err
  assume "fst (toNotEqual c v msg this s) = Inl (Thrown err)"
  then show "showDiff err = None" "e_actual err = None" "e_expected err = None"
    by (auto simp: toNotEqual_def Let_def failure_def)
next
  fix name as err
  assume h: "name \<noteq> ''toEqual'' \<and> fst (invoke c name as this s) = Inl (Thrown err)"
  then obtain m where m: "prototype name = Some m"
    by (cases "prototype name") (auto simp: invoke_def)
  with h have "no_diff m"
    by (auto intro: prototype_no_diff)
  with h m show "showDiff err = None" "e_actual err = None" "e_expected err = None"
    by (auto simp: invoke_def no_diff_def)
qed

theorem only_toEqual_carries_diff_witness:
  "\<forall>c. (let w = expect (Num (Finite 1)) in
     (\<exists>err. fst (toEqual c (Num (Finite 2)) Undefined (fst w) (snd w)) = Inl (Thrown err)
        \<and> showDiff err = Some True \<and> e_actual err = Some (Num (Finite 1))
        \<and> e_expected err = Some (Num (Finite 2)))
     \<and> (\<exists>err. fst (invoke c ''toNotEqual'' [Num (Finite 1)] (fst w) (snd w)) = Inl (Thrown err)
        \<and> showDiff err = None \<and> e_actual err = None \<and> e_expected err = None))"
proof
  fix c
  let ?w = "expect (Num (Finite 1))"
  have a: "actual (objs (snd ?w) (fst ?w)) = Num (Finite 1)"
    by simp
  obtain e where e: "fst (toEqual c (Num (Finite 2)) Undefined (fst ?w) (snd ?w)) = Inl e"
    using a by (simp add: toEqual_def Let_def assert_def)
  obtain e' where e': "fst (invoke c ''toNotEqual'' [Num (Finite 1)] (fst ?w) (snd ?w)) = Inl (Thrown e')"
    using a by (simp add: invoke_def prototype_toNotEqual toNotEqual_def Let_def arg_def failure_def)
  note T = only_toEqual_carries_diff [of c "Num (Finite 2)" Undefined "fst ?w" "snd ?w"]
  note T1 = T [THEN conjunct1, rule_format, OF e]
  have neq: "''toNotEqual'' \<noteq> ''toEqual''"
    by simp
  note T3 = T [THEN conjunct2, THEN conjunct2, rule_format, OF conjI [OF neq e']]
  from T1 obtain err where err: "e = Thrown err" "showDiff err = Some True"
    "e_actual err = Some (actual (objs (snd ?w) (fst ?w)))" "e_expected err = Some (Num (Finite 2))"
    by auto
  have first: "\<exists>err. fst (toEqual c (Num (Finite 2)) Undefined (fst ?w) (snd ?w)) = Inl (Thrown err)
        \<and> showDiff err = Some True \<and> e_actual err = Some (Num (Finite 1))
        \<and> e_expected err = Some (Num (Finite 2))"
    using e err a by simp
  have second: "\<exists>err. fst (invoke c ''toNotEqual'' [Num (Finite 1)] (fst ?w) (snd ?w)) = Inl (Thrown err)
        \<and> showDiff err = None \<and> e_actual err = None \<and> e_expected err = None"
    using e' T3 by (intro exI [of _ e']) simp
  show "let w = expect (Num (Finite 1)) in
     (\<exists>err. fst (toEqual c (Num (Finite 2)) Undefined (fst w) (snd w)) = Inl (Thrown err)
        \<and> showDiff err = Some True \<and> e_actual err = Some (Num (Finite 1))
        \<and> e_expected err = Some (Num (Finite 2)))
     \<and> (\<exists>err. fst (invoke c ''toNotEqual'' [Num (Finite 1)] (fst w) (snd w)) = Inl (Thrown err)
        \<and> showDiff err = None \<and> e_actual err = None \<and> e_expected err = None)"
    unfolding Let_def using first second by (rule conjI)
qed




text \<open>
  C4. For each pair of the alias table, the alias is bound in the prototype to the very
  method its canonical name is bound to, that method exists, and a call under the alias
  gives the outcome (what is returned or thrown, and the heap) of the same call under
  the canonical name.
\<close>

theorem alias_bound_to_canonical:
  "\<forall>(alias, canonical) \<in> set aliases.
     prototype alias = prototype canonical \<and> prototype canonical \<noteq> None
     \<and> (\<forall>c as this s. invoke c alias as this s = invoke c canonical as this s)"
  by (simp add: invoke_def prototype_def aliases_def bind_alias_def class_body_def)

theorem alias_bound_to_canonical_witness:
  "prototype ''toContain'' = prototype ''toInclude'' \<and> prototype ''toInclude'' \<noteq> None
   \<and> (\<forall>c as this s. invoke c ''toContain'' as this s = invoke c ''toInclude'' as this s)"
proof -
  have "(''toContain'', ''toInclude'') \<in> set aliases"
    by (simp add: aliases_def)
  from bspec [OF alias_bound_to_canonical this] show ?thesis
    by simp
qed

text \<open>
  C5. \<^verbatim>\<open>toBe\<close> passes exactly when the subject and the value are strictly identical,
  and \<^verbatim>\<open>toNotBe\<close> exactly when \<^verbatim>\<open>toBe\<close> does not: never both, never neither. Values of
  different types are never identical, and when both are \<open>NaN\<close> \<^verbatim>\<open>toBe\<close> fails and
  \<^verbatim>\<open>toNotBe\<close> passes.
\<close>

theorem toBe_toNotBe_complement:
  "passes (toBe c v msg this s) = strict_eq (actual (objs s this)) v
   \<and> passes (toNotBe c v msg' this s) = (\<not> passes (toBe c v msg this s))
   \<and> (typeof (actual (objs s this)) \<noteq> typeof v \<longrightarrow> \<not> passes (toBe c v msg this s))
   \<and> (actual (objs s this) = Num NaN \<and> v = Num NaN \<longrightarrow>
        \<not> passes (toBe c v msg this s) \<and> passes (toNotBe c v msg' this s))"
  by (auto simp: toBe_def toNotBe_def Let_def passes_andThen_assert dest: strict_eq_typeof)

theorem toBe_toNotBe_complement_witness:
  "\<forall>c. (let w = expect (Num NaN) in
     \<not> passes (toBe c (Num NaN) Undefined (fst w) (snd w))
     \<and> passes (toNotBe c (Num NaN) Undefined (fst w) (snd w))
     \<and> typeof (Num NaN) \<noteq> typeof (Str ''NaN'')
     \<and> \<not> passes (toBe c (Str ''NaN'') Undefined (fst w) (snd w)))"
proof
  fix c
  let ?w = "expect (Num NaN)"
  have a: "actual (objs (snd ?w) (fst ?w)) = Num NaN"
    by simp
  show "let w = expect (Num NaN) in
     \<not> passes (toBe c (Num NaN) Undefined (fst w) (snd w))
     \<and> passes (toNotBe c (Num NaN) Undefined (fst w) (snd w))
     \<and> typeof (Num NaN) \<noteq> typeof (Str ''NaN'')
     \<and> \<not> passes (toBe c (Str ''NaN'') Undefined (fst w) (snd w))"
    using toBe_toNotBe_complement [of c "Num NaN" Undefined "fst ?w" "snd ?w" Undefined]
      toBe_toNotBe_complement [of c "Str ''NaN''" Undefined "fst ?w" "snd ?w" Undefined] a
    by (simp add: Let_def)
qed

text \<open>
  C6. For each of the four ordering predicates: a subject that is not a number raises the
  usage error about the subject, and a number with an argument that is not a number
  raises the usage error about the argument, whatever the comparison would give. When
  both are numbers the predicate passes exactly when the relational operator holds, and
  otherwise raises the assertion failure, rendered from the message (or the default
  template) and the two numbers: a different error from the two usage errors. The
  operator never holds when a side is \<open>NaN\<close>, so a comparison with \<open>NaN\<close> ends in
  the assertion failure.
\<close>

theorem ordering_usage_errors:
  \<open>(typeof (actual (objs s this)) \<noteq> ''number'' \<longrightarrow>
      ordering_method p c v msg this s =
        (Inl (failure c (Str (''The "actual" argument in expect(actual).'' @ ordering_name p
                              @ ''() must be a number'')) []), s))
   \<and> (typeof (actual (objs s this)) = ''number'' \<and> typeof v \<noteq> ''number'' \<longrightarrow>
      ordering_method p c v msg this s =
        (Inl (failure c (Str (''The "value" argument in '' @ ordering_name p
                              @ ''(value) must be a number'')) []), s))
   \<and> (\<forall>x y. actual (objs s this) = Num x \<and> v = Num y \<longrightarrow>
      ordering_method p c v msg this s =
        (if ordering_holds p x y then Inr this
         else Inl (failure c (js_or msg (Str (''Expected %s to be '' @ ordering_words p @ '' %s'')))
                     [Num x, Num y]), s))
   \<and> (\<forall>x. \<not> ordering_holds p NaN x \<and> \<not> ordering_holds p x NaN)\<close>
  by (cases p)
    (auto simp: toBeLessThan_def toBeLessThanOrEqualTo_def toBeGreaterThan_def
      toBeGreaterThanOrEqualTo_def Let_def andThen_def assert_def js_gt_def js_ge_def)

theorem ordering_usage_errors_witness:
  \<open>\<forall>c. (let w = expect (Str ''a'') in
          toBeLessThan c (Num (Finite 1)) Undefined (fst w) (snd w) =
            (Inl (failure c (Str ''The "actual" argument in expect(actual).toBeLessThan() must be a number'') []),
             snd w))
      \<and> (let w = expect (Num (Finite 1)) in
          toBeGreaterThan c (Str ''a'') Undefined (fst w) (snd w) =
            (Inl (failure c (Str ''The "value" argument in toBeGreaterThan(value) must be a number'') []),
             snd w))
      \<and> (let w = expect (Num NaN) in
          toBeLessThanOrEqualTo c (Num NaN) Undefined (fst w) (snd w) =
            (Inl (failure c (Str ''Expected %s to be less than or equal to %s'') [Num NaN, Num NaN]),
             snd w))\<close>
proof (intro allI conjI)
  fix c
  let ?w = \<open>expect (Str ''a'')\<close>
  have \<open>typeof (actual (objs (snd ?w) (fst ?w))) \<noteq> ''number''\<close>
    by simp
  with ordering_usage_errors [of \<open>snd ?w\<close> \<open>fst ?w\<close> LessThan c \<open>Num (Finite 1)\<close> Undefined]
  show \<open>let w = expect (Str ''a'') in
          toBeLessThan c (Num (Finite 1)) Undefined (fst w) (snd w) =
            (Inl (failure c (Str ''The "actual" argument in expect(actual).toBeLessThan() must be a number'') []),
             snd w)\<close>
    by (simp add: Let_def)
next
  fix c
  let ?w = \<open>expect (Num (Finite 1))\<close>
  have \<open>typeof (actual (objs (snd ?w) (fst ?w))) = ''number'' \<and> typeof (Str ''a'') \<noteq> ''number''\<close>
    by simp
  with ordering_usage_errors [of \<open>snd ?w\<close> \<open>fst ?w\<close> GreaterThan c \<open>Str ''a''\<close> Undefined]
  show \<open>let w = expect (Num (Finite 1)) in
          toBeGreaterThan c (Str ''a'') Undefined (fst w) (snd w) =
            (Inl (failure c (Str ''The "value" argument in toBeGreaterThan(value) must be a number'') []),
             snd w)\<close>
    by (simp add: Let_def)
next
  fix c
  let ?w = \<open>expect (Num NaN)\<close>
  have \<open>actual (objs (snd ?w) (fst ?w)) = Num NaN \<and> Num NaN = Num NaN\<close>
    by simp
  with ordering_usage_errors [of \<open>snd ?w\<close> \<open>fst ?w\<close> LessThanOrEqualTo c \<open>Num NaN\<close> Undefined]
  show \<open>let w = expect (Num NaN) in
          toBeLessThanOrEqualTo c (Num NaN) Undefined (fst w) (snd w) =
            (Inl (failure c (Str ''Expected %s to be less than or equal to %s'') [Num NaN, Num NaN]),
             snd w)\<close>
    by (simp add: Let_def js_or_def)
qed

text \<open>
  C7. When a string stands where the comparator is expected, \<^verbatim>\<open>toInclude\<close> and
  \<^verbatim>\<open>toExclude\<close> give the outcome of the call with no comparator and that string as the
  message, whatever was passed as the message; and the containment they assert is the
  one computed with the deep-equality comparator, which always returns: \<^verbatim>\<open>toInclude\<close>
  passes exactly when it returns true and \<^verbatim>\<open>toExclude\<close> exactly when it returns false.
\<close>

theorem string_in_compareFn_position:
  "toInclude c v (Str m) msg this s = toInclude c v Undefined (Str m) this s
   \<and> toExclude c v (Str m) msg this s = toExclude c v Undefined (Str m) this s
   \<and> passes (toInclude c v (Str m) msg this s) =
       (let a = actual (objs s this) in
        if isArray a then arrayContains a v (returning isEqual) = Inr True
        else if isObject a then objectContains a v (returning isEqual) = Inr True
        else typeof a = ''string'' \<and> stringContains c a v)
   \<and> passes (toExclude c v (Str m) msg this s) =
       (let a = actual (objs s this) in
        if isArray a then arrayContains a v (returning isEqual) = Inr False
        else if isObject a then objectContains a v (returning isEqual) = Inr False
        else typeof a = ''string'' \<and> \<not> stringContains c a v)"
proof -
  have ret: "\<exists>r. returning isEqual x y = Inr r" for x y
    by simp
  obtain ba where ba: "arrayContains (actual (objs s this)) v (returning isEqual) = Inr ba"
    using arrayContains_returns [of "returning isEqual", OF ret] by blast
  obtain bo where bo: "objectContains (actual (objs s this)) v (returning isEqual) = Inr bo"
    using objectContains_returns [of "returning isEqual", OF ret] by blast
  show ?thesis
    using ba bo
    by (auto simp: toExclude_def toInclude_def Let_def passes_def andThen_def assert_def)
qed

theorem string_in_compareFn_position_witness:
  "\<forall>c. (let w = expect (Arr 1 [Num (Finite 1), Arr 2 [Num (Finite 2)]]) in
     toInclude c (Num (Finite 3)) (Str ''no three'') Undefined (fst w) (snd w) =
       (Inl (failure c (Str ''no three'')
               [Arr 1 [Num (Finite 1), Arr 2 [Num (Finite 2)]], Num (Finite 3)]), snd w)
     \<and> passes (toInclude c (Arr 3 [Num (Finite 2)]) (Str ''nested'') Undefined (fst w) (snd w)))"
proof
  fix c
  let ?w = "expect (Arr 1 [Num (Finite 1), Arr 2 [Num (Finite 2)]])"
  have a: "actual (objs (snd ?w) (fst ?w)) = Arr 1 [Num (Finite 1), Arr 2 [Num (Finite 2)]]"
    by simp
  have "toInclude c (Num (Finite 3)) Undefined (Str ''no three'') (fst ?w) (snd ?w) =
       (Inl (failure c (Str ''no three'')
               [Arr 1 [Num (Finite 1), Arr 2 [Num (Finite 2)]], Num (Finite 3)]), snd ?w)"
    using a by (simp add: toInclude_def Let_def andThen_def assert_def js_or_def)
  with string_in_compareFn_position
      [of c "Num (Finite 3)" "''no three''" Undefined "fst ?w" "snd ?w", THEN conjunct1]
  have first: "toInclude c (Num (Finite 3)) (Str ''no three'') Undefined (fst ?w) (snd ?w) =
       (Inl (failure c (Str ''no three'')
               [Arr 1 [Num (Finite 1), Arr 2 [Num (Finite 2)]], Num (Finite 3)]), snd ?w)"
    by simp
  have second: "passes (toInclude c (Arr 3 [Num (Finite 2)]) (Str ''nested'') Undefined (fst ?w) (snd ?w))"
    using string_in_compareFn_position
      [of c "Arr 3 [Num (Finite 2)]" "''nested''" Undefined "fst ?w" "snd ?w",
        THEN conjunct2, THEN conjunct2, THEN conjunct1] a
    by (simp add: Let_def)
  show "let w = expect (Arr 1 [Num (Finite 1), Arr 2 [Num (Finite 2)]]) in
     toInclude c (Num (Finite 3)) (Str ''no three'') Undefined (fst w) (snd w) =
       (Inl (failure c (Str ''no three'')
               [Arr 1 [Num (Finite 1), Arr 2 [Num (Finite 2)]], Num (Finite 3)]), snd w)
     \<and> passes (toInclude c (Arr 3 [Num (Finite 2)]) (Str ''nested'') Undefined (fst w) (snd w))"
    unfolding Let_def using first second by (rule conjI)
qed

text \<open>
  C8. On a subject that is a spy, \<^verbatim>\<open>toHaveBeenCalledWith(e1, ..., en)\<close> passes exactly
  when some recorded call has an argument list of the same length \<open>n\<close> whose every
  element deep-equals the expected element at the same position. A recorded call with
  more or fewer arguments is no match.
\<close>

theorem toHaveBeenCalledWith_iff:
  assumes "isSpy (actual (objs s this))"
  shows "passes (toHaveBeenCalledWith c es this s) =
           (\<exists>(r, as) \<in> set (calls (actual (objs s this))).
              length as = length es \<and> (\<forall>i < length es. isEqual (as ! i) (es ! i)))"
  using assms
  by (auto simp: toHaveBeenCalledWith_def Let_def passes_def list_ex_iff isEqual_list_all2
      list_all2_conv_all_nth split: sum.splits)

theorem toHaveBeenCalledWith_iff_witness:
  "\<forall>c. (let w = expect (Spy 0 [(1, [Num (Finite 1)]), (2, [Num (Finite 1), Str ''a''])]) in
     passes (toHaveBeenCalledWith c [Num (Finite 1), Str ''a''] (fst w) (snd w))
     \<and> \<not> passes (toHaveBeenCalledWith c [Str ''a''] (fst w) (snd w))
     \<and> \<not> passes (toHaveBeenCalledWith c [Num (Finite 1), Str ''a'', Null] (fst w) (snd w)))"
proof
  fix c
  let ?w = "expect (Spy 0 [(1, [Num (Finite 1)]), (2, [Num (Finite 1), Str ''a''])])"
  have a: "actual (objs (snd ?w) (fst ?w)) = Spy 0 [(1, [Num (Finite 1)]), (2, [Num (Finite 1), Str ''a''])]"
    by simp
  then have spy: "isSpy (actual (objs (snd ?w) (fst ?w)))"
    by simp
  show "let w = expect (Spy 0 [(1, [Num (Finite 1)]), (2, [Num (Finite 1), Str ''a''])]) in
     passes (toHaveBeenCalledWith c [Num (Finite 1), Str ''a''] (fst w) (snd w))
     \<and> \<not> passes (toHaveBeenCalledWith c [Str ''a''] (fst w) (snd w))
     \<and> \<not> passes (toHaveBeenCalledWith c [Num (Finite 1), Str ''a'', Null] (fst w) (snd w))"
    using toHaveBeenCalledWith_iff [OF spy, of c "[Num (Finite 1), Str ''a'']"]
      toHaveBeenCalledWith_iff [OF spy, of c "[Str ''a'']"]
      toHaveBeenCalledWith_iff [OF spy, of c "[Num (Finite 1), Str ''a'', Null]"] a
    by (simp add: Let_def All_less_Suc)
qed

text \<open>
  C9. A call of any method name, with any arguments, on any wrapper: if it returns, it
  returns the wrapper it was called on; and whether it returns or throws, the subject of
  that wrapper, and of every other, is what it was before the call. The constructor
  stores its argument as the subject.
\<close>

theorem methods_return_this_and_keep_subject:
  "(\<forall>r. fst (invoke c name as this s) = Inr r \<longrightarrow> r = this)
   \<and> (\<forall>w. actual (objs (snd (invoke c name as this s)) w) = actual (objs s w))
   \<and> actual (objs (snd (Expectation a s)) (fst (Expectation a s))) = a"
proof (cases "prototype name")
  case None
  then show ?thesis
    by (simp add: invoke_def Expectation_def Let_def)
next
  case (Some m)
  then have "chainable m"
    by (rule prototype_chainable)
  with Some show ?thesis
    by (simp add: invoke_def chainable_def Expectation_def Let_def)
qed

theorem methods_return_this_and_keep_subject_witness:
  "\<forall>c. (let w = expect (Fn 0); out = invoke c ''withArgs'' [Num (Finite 1)] (fst w) (snd w) in
     fst out = Inr (fst w)
     \<and> actual (objs (snd out) (fst w)) = Fn 0
     \<and> args (objs (snd out) (fst w)) = Some [Num (Finite 1)])"
proof
  fix c
  let ?w = "expect (Fn 0)"
  let ?out = "invoke c ''withArgs'' [Num (Finite 1)] (fst ?w) (snd ?w)"
  have f: "isFunction (actual (objs (snd ?w) (fst ?w)))"
    by (simp add: isFunction_def)
  have out: "?out = (Inr (fst ?w), (snd ?w)\<lparr>objs := (objs (snd ?w))(fst ?w := (objs (snd ?w) (fst ?w))
                        \<lparr>args := Some [Num (Finite 1)]\<rparr>)\<rparr>)"
    using withArgs_no_array_argument [OF f, of "[]" "[Num (Finite 1)]" c]
    by (simp add: invoke_def prototype_withArgs isFunction_def)
  from methods_return_this_and_keep_subject [of c "''withArgs''" "[Num (Finite 1)]" "fst ?w" "snd ?w"]
  have "actual (objs (snd ?out) (fst ?w)) = actual (objs (snd ?w) (fst ?w))"
    by blast
  then show "let w = expect (Fn 0); out = invoke c ''withArgs'' [Num (Finite 1)] (fst w) (snd w) in
     fst out = Inr (fst w)
     \<and> actual (objs (snd out) (fst w)) = Fn 0
     \<and> args (objs (snd out) (fst w)) = Some [Num (Finite 1)]"
    unfolding Let_def using out by simp
qed

text \<open>
  C10. When the type argument is a function or a string, the subject is of that type and
  no message is supplied, \<^verbatim>\<open>toNotBeA\<close> fails with the failure rendered from the template
  \<^verbatim>\<open>Expected %s to be a %s\<close>, the subject and the type: the very failure \<^verbatim>\<open>toBeA\<close>
  raises on the same subject and type when its own check does not hold.
\<close>

theorem toNotBeA_default_message:
  assumes "\<not> truthy msg"
    and "isFunction v \<or> typeof v = ''string''"
    and "isA c (actual (objs s this)) v"
  shows "fst (toNotBeA c v msg this s) =
           Inl (failure c (Str ''Expected %s to be a %s'') [actual (objs s this), v])
         \<and> fst (toNotBeA c v msg this s) = fst (toBeA (c\<lparr>isA := \<lambda>_ _. False\<rparr>) v msg this s)"
  using assms
  by (auto simp: toNotBeA_def toBeA_def Let_def andThen_def assert_def js_or_def failure_def)

theorem toNotBeA_default_message_witness:
  "\<forall>c :: collab. (let c' = c\<lparr>isA := \<lambda>x t. t = Str (typeof x)\<rparr>; w = expect (Num (Finite 1)) in
     fst (toNotBeA c' (Str ''number'') Undefined (fst w) (snd w)) =
       Inl (failure c' (Str ''Expected %s to be a %s'') [Num (Finite 1), Str ''number'']))"
proof
  fix c :: collab
  let ?c = "c\<lparr>isA := \<lambda>x t. t = Str (typeof x)\<rparr>"
  let ?w = "expect (Num (Finite 1))"
  have a: "actual (objs (snd ?w) (fst ?w)) = Num (Finite 1)"
    by simp
  have h1: "\<not> truthy Undefined"
    by simp
  have h2: "isFunction (Str ''number'') \<or> typeof (Str ''number'') = ''string''"
    by simp
  have h3: "isA ?c (actual (objs (snd ?w) (fst ?w))) (Str ''number'')"
    by simp
  from toNotBeA_default_message [OF h1 h2 h3] a
  show "let c' = c\<lparr>isA := \<lambda>x t. t = Str (typeof x)\<rparr>; w = expect (Num (Finite 1)) in
     fst (toNotBeA c' (Str ''number'') Undefined (fst w) (snd w)) =
       Inl (failure c' (Str ''Expected %s to be a %s'') [Num (Finite 1), Str ''number''])"
    by (simp add: Let_def)
qed

end
